theory Spec2Isabelle
  imports Complex_Main "HOL-Library.AList"
begin

section \<open>The tournament document (models/Tournament.js)\<close>

text \<open>
  The \<open>status\<close> path of the schema is a string restricted by
  \<open>enum: ['upcoming', 'ongoing', 'completed', 'cancelled']\<close>; every stored document holds
  one of the four.
\<close>

datatype status = Upcoming | Ongoing | Completed | Cancelled

text \<open>
  One field per schema path. A \<open>Date\<close> is its time value, the milliseconds since the epoch;
  a \<open>Number\<close> is an \<open>int\<close> (the counts the routes accept from validated forms are
  integers); a path whose default is \<open>null\<close> is an option.
\<close>

record tournament =
  name :: string
  date :: int
  time :: string
  location :: string
  address :: string
  entryFee :: string
  prizePool :: string
  maxParticipants :: int
  currentParticipants :: int
  format :: string
  timeControl :: string
  category :: string
  registrationLink :: string
  poster :: string
  posterImage :: "string option"
  description :: string
  listUntil :: int
  status :: status
  isActive :: bool
  winner :: "string option"
  finalParticipants :: "int option"

subsection \<open>Calendar days\<close>

definition msPerDay :: int where
  "msPerDay = 86400000"

text \<open>
  \<open>Date.prototype.toDateString\<close> prints weekday, month, day and year of the local time
  \<open>t + tz t\<close>, where \<open>tz t\<close> is the offset of the server's zone from UTC at \<open>t\<close>. Two
  such strings are equal exactly when the local day numbers are, so the model returns the
  day number.
\<close>

definition toDateString :: "(int \<Rightarrow> int) \<Rightarrow> int \<Rightarrow> int" where
  "toDateString tz t = (t + tz t) div msPerDay"

text \<open>A server whose zone is UTC, and one with a fixed offset of \<open>c\<close> milliseconds.\<close>

definition utc :: "int \<Rightarrow> int" where
  "utc t = 0"


subsection \<open>\<open>tournamentSchema.methods.updateStatus\<close>\<close>

text \<open>
  The assignments of the method to \<open>this.status\<close>, with \<open>now\<close> the value of
  \<open>new Date()\<close> read by the call. The method then returns \<open>this.save()\<close>, which is
  \<open>save\<close> below.
\<close>

definition updateStatus :: "(int \<Rightarrow> int) \<Rightarrow> int \<Rightarrow> tournament \<Rightarrow> tournament" where
  "updateStatus tz now t =
     (if now > date t then t\<lparr>status := Completed\<rparr>
      else if toDateString tz now = toDateString tz (date t) then t\<lparr>status := Ongoing\<rparr>
      else t\<lparr>status := Upcoming\<rparr>)"

subsection \<open>Sample documents\<close>

text \<open>
  A tournament scheduled for 3 November 2026, 00:00 UTC (the time value a date-only form
  input is cast to), listed until the end of that month.
\<close>

definition autumnOpen :: tournament where
  "autumnOpen =
     \<lparr> name = ''Autumn Open'', date = 1793664000000, time = ''10:00'',
       location = ''Main Hall'', address = ''1 King Street'', entryFee = ''500'',
       prizePool = ''10000'', maxParticipants = 5, currentParticipants = 3,
       format = ''Swiss'', timeControl = ''15+10'', category = ''Rapid'',
       registrationLink = ''https://example.org/r'', poster = ''T'',
       posterImage = None, description = ''Seven rounds'', listUntil = 1796083200000,
       status = Upcoming, isActive = True, winner = None, finalParticipants = None \<rparr>"

text \<open>Noon UTC of the tournament's day.\<close>

definition noon :: int where
  "noon = 1793664000000 + 43200000"

section \<open>Collaborators of the routes\<close>

subsection \<open>Strings\<close>

text \<open>
  A string is a list of 8-bit characters. \<open>String.prototype.trim\<close> (and the validator's
  \<open>trim()\<close> sanitizer) strips white space at both ends; the white-space characters of
  this range are tab, line feed, vertical tab, form feed, carriage return, space and the
  no-break space.
\<close>

definition isSpace :: "char \<Rightarrow> bool" where
  "isSpace c =
     (c = CHR 0x09 \<or> c = CHR 0x0A \<or> c = CHR 0x0B \<or> c = CHR 0x0C \<or> c = CHR 0x0D
      \<or> c = CHR 0x20 \<or> c = CHR 0xA0)"

definition trim :: "string \<Rightarrow> string" where
  "trim s = rev (dropWhile isSpace (rev (dropWhile isSpace s)))"

subsection \<open>The database and the image host\<close>

text \<open>
  What the handlers act on: the \<open>tournaments\<close> collection (documents by \<open>_id\<close>;
  \<open>findById\<close> and \<open>save\<close> address the first entry with the id, and nothing below
  needs the ids to be distinct), the public ids of the images Cloudinary holds, and the
  trace of the writes and Cloudinary calls made so far, in order.
\<close>

datatype event = Uploaded string | Destroy string | Saved nat

record world =
  tournaments :: "(nat \<times> tournament) list"
  cloud :: "string set"
  trace :: "event list"

text \<open>
  What the handlers cannot decide: the server's zone, the successive readings of
  \<open>new Date()\<close> during a request, whether the database answers a read, whether it
  accepts the write of a document, what an upload resolves to (\<open>secure_url\<close> and
  \<open>public_id\<close>; \<open>None\<close> when it rejects), whether \<open>uploader.destroy\<close> rejects,
  the \<open>_id\<close> given to a new document, and the database's regular expressions:
  \<open>regex e pattern options\<close> is the test a \<open>$regex\<close> clause applies to a string, or
  \<open>None\<close> when the pattern does not compile.
\<close>

record env =
  zone :: "int \<Rightarrow> int"
  clock :: "nat \<Rightarrow> int"
  findFails :: bool
  saveFails :: "nat \<Rightarrow> bool"
  uploadResult :: "(string \<times> string) option"
  destroyFails :: "string \<Rightarrow> bool"
  freshId :: nat
  regex :: "string \<Rightarrow> string \<Rightarrow> (string \<Rightarrow> bool) option"

text \<open>The exceptions that reach a handler, by \<open>error.name\<close>.\<close>

datatype exn = CastError | MongoError | ValidationError | CloudinaryError | ReferenceError

text \<open>\<open>req.params.id\<close>: a string that casts to an ObjectId, or one that does not.\<close>

datatype idparam = BadId | Id nat

definition findById :: "env \<Rightarrow> idparam \<Rightarrow> world \<Rightarrow> exn + (nat \<times> tournament) option" where
  "findById e p w =
     (case p of
        BadId \<Rightarrow> Inl CastError
      | Id i \<Rightarrow>
          if findFails e then Inl MongoError
          else (case map_of (tournaments w) i of
                  None \<Rightarrow> Inr None
                | Some t \<Rightarrow> Inr (Some (i, t))))"

text \<open>
  \<open>document.save()\<close>: the write of document \<open>i\<close>, or the rejection of the promise.
  Every call is a write the database may reject, also when the document is unchanged.
\<close>

definition save :: "env \<Rightarrow> nat \<Rightarrow> tournament \<Rightarrow> world \<Rightarrow> exn + world" where
  "save e i t w =
     (if saveFails e i then Inl MongoError
      else Inr (w\<lparr>tournaments := AList.update i t (tournaments w),
                  trace := trace w @ [Saved i]\<rparr>))"

subsection \<open>config/cloudinary.js\<close>

definition uploadToCloudinary :: "env \<Rightarrow> world \<Rightarrow> exn + ((string \<times> string) \<times> world)" where
  "uploadToCloudinary e w =
     (case uploadResult e of
        None \<Rightarrow> Inl CloudinaryError
      | Some (url, pid) \<Rightarrow>
          Inr ((url, pid), w\<lparr>cloud := insert pid (cloud w), trace := trace w @ [Uploaded pid]\<rparr>))"

text \<open>
  \<open>deleteFromCloudinary\<close> awaits \<open>uploader.destroy(publicId)\<close> and rethrows its error.
  The call is traced whether it succeeds or not; destroying an id Cloudinary does not hold
  changes nothing.
\<close>

definition deleteFromCloudinary :: "env \<Rightarrow> string \<Rightarrow> world \<Rightarrow> exn option \<times> world" where
  "deleteFromCloudinary e pid w =
     (if destroyFails e pid then (Some CloudinaryError, w\<lparr>trace := trace w @ [Destroy pid]\<rparr>)
      else (None, w\<lparr>cloud := cloud w - {pid}, trace := trace w @ [Destroy pid]\<rparr>))"

text \<open>
  \<open>extractPublicId\<close> matches the URL against
  \<^verbatim>\<open>/\/aspire-chess-academy\/([^\/]+\/[^\/]+)(?:\.[^.]+)?$/\<close>.
  \<open>matchTail\<close> matches what follows one occurrence of the literal prefix: a segment, a
  slash, and the longest second segment after which only the optional extension (a dot and
  one or more characters that are not dots) remains; it returns the captured group.
\<close>

definition notSlash :: "char \<Rightarrow> bool" where
  "notSlash c = (c \<noteq> CHR ''/'')"

definition notDot :: "char \<Rightarrow> bool" where
  "notDot c = (c \<noteq> CHR ''.'')"

definition matchTail :: "string \<Rightarrow> string option" where
  "matchTail r =
     (let x = takeWhile notSlash r; r1 = dropWhile notSlash r in
      if x = [] \<or> r1 = [] then None
      else
        let r2 = tl r1; y = takeWhile notSlash r2; rest = dropWhile notSlash r2 in
        if y = [] then None
        else if rest = [] then Some (x @ ''/'' @ y)
        else
          let y' = rev (tl (dropWhile notDot (rev y))) in
          if list_all notDot rest \<and> \<not> list_all notDot y \<and> y' \<noteq> []
          then Some (x @ ''/'' @ y') else None)"

fun findMatch :: "string \<Rightarrow> string option" where
  "findMatch [] = None"
| "findMatch (c # cs) =
     (if take 22 (c # cs) = ''/aspire-chess-academy/''
      then (case matchTail (drop 22 (c # cs)) of
              Some g \<Rightarrow> Some g
            | None \<Rightarrow> findMatch cs)
      else findMatch cs)"

definition extractPublicId :: "string option \<Rightarrow> string option" where
  "extractPublicId cloudinaryUrl =
     (case cloudinaryUrl of
        None \<Rightarrow> None
      | Some url \<Rightarrow>
          if url = [] then None
          else (case findMatch url of
                  Some g \<Rightarrow> Some (''aspire-chess-academy/'' @ g)
                | None \<Rightarrow> None))"

section \<open>The tournament routes (routes/tournaments.js)\<close>

text \<open>
  The router module that requires \<open>../models/Tournament\<close> and \<open>../config/cloudinary\<close>
  (in the sources it follows the Cloudinary helpers in the same file). The handlers are
  modelled from the point where the \<open>auth\<close>, \<open>adminOnly\<close> and multer middleware have
  passed the request on; each takes the environment, the request and the state, and
  returns the response with the new state.
\<close>

subsection \<open>The request body and \<open>tournamentValidation\<close>\<close>

text \<open>
  A numeric form field is absent, present but not an integer literal, or an integer; a
  date field is absent or empty, present but not castable to a \<open>Date\<close>, or a time value.
  An absent text field validates like the empty string. The keys after
  \<open>b_currentParticipants\<close> are the schema paths the validation chain does not mention;
  they reach the document through \<open>new Tournament(req.body)\<close> and \<open>Object.assign\<close>
  when present.
\<close>

datatype intfield = Missing | Malformed | IntVal int

datatype datefield = NoDate | BadDate | DateVal int

record body =
  b_name :: string
  b_date :: datefield
  b_time :: string
  b_location :: string
  b_address :: string
  b_entryFee :: string
  b_prizePool :: string
  b_maxParticipants :: intfield
  b_format :: string
  b_timeControl :: string
  b_category :: string
  b_registrationLink :: string
  b_description :: string
  b_listUntil :: datefield
  b_currentParticipants :: intfield
  b_poster :: "string option"
  b_posterImage :: "string option"
  b_status :: "string option"
  b_isActive :: "bool option"
  b_winner :: "string option"
  b_finalParticipants :: "int option"

definition isLength :: "nat \<Rightarrow> nat \<Rightarrow> string \<Rightarrow> bool" where
  "isLength lo hi s = (lo \<le> length s \<and> length s \<le> hi)"

definition isInt :: "int option \<Rightarrow> int option \<Rightarrow> intfield \<Rightarrow> bool" where
  "isInt lo hi f =
     (case f of
        IntVal n \<Rightarrow>
          (case lo of None \<Rightarrow> True | Some l \<Rightarrow> l \<le> n)
          \<and> (case hi of None \<Rightarrow> True | Some h \<Rightarrow> n \<le> h)
      | _ \<Rightarrow> False)"

definition categories :: "string list" where
  "categories =
     [''Open Tournament'', ''Youth (Under 18)'', ''Online Blitz'', ''Rapid'', ''Classical'',
      ''Blitz'']"

text \<open>One message per failing chain, in the order of the array; \<open>[]\<close> when all pass.\<close>

definition check :: "bool \<Rightarrow> string \<Rightarrow> string list" where
  "check ok msg = (if ok then [] else [msg])"

definition tournamentValidation :: "body \<Rightarrow> string list" where
  "tournamentValidation b =
     check (isLength 1 150 (trim (b_name b)))
       ''Tournament name is required and must not exceed 150 characters''
     @ check (b_date b \<noteq> NoDate) ''Date is required''
     @ check (trim (b_time b) \<noteq> []) ''Time is required''
     @ check (isLength 1 200 (trim (b_location b)))
       ''Location is required and must not exceed 200 characters''
     @ check (isLength 1 300 (trim (b_address b)))
       ''Address is required and must not exceed 300 characters''
     @ check (trim (b_entryFee b) \<noteq> []) ''Entry fee is required''
     @ check (trim (b_prizePool b) \<noteq> []) ''Prize pool is required''
     @ check (isInt (Some 1) (Some 1000) (b_maxParticipants b))
       ''Maximum participants must be between 1 and 1000''
     @ check (isLength 1 100 (trim (b_format b)))
       ''Format is required and must not exceed 100 characters''
     @ check (isLength 1 100 (trim (b_timeControl b)))
       ''Time control is required and must not exceed 100 characters''
     @ check (b_category b \<in> set categories) ''Please select a valid category''
     @ check (trim (b_registrationLink b) \<noteq> []) ''Registration link is required''
     @ check (isLength 1 1000 (trim (b_description b)))
       ''Description is required and must not exceed 1000 characters''
     @ check (b_listUntil b \<noteq> NoDate) ''List until date is required''
     @ check (b_currentParticipants b = Missing \<or> isInt (Some 0) None (b_currentParticipants b))
       ''Current participants must be a non-negative integer''"

text \<open>The \<open>trim()\<close> sanitizers of the chains write the trimmed value back to the body.\<close>

definition sanitize :: "body \<Rightarrow> body" where
  "sanitize b =
     b\<lparr>b_name := trim (b_name b), b_time := trim (b_time b),
       b_location := trim (b_location b), b_address := trim (b_address b),
       b_entryFee := trim (b_entryFee b), b_prizePool := trim (b_prizePool b),
       b_format := trim (b_format b), b_timeControl := trim (b_timeControl b),
       b_registrationLink := trim (b_registrationLink b),
       b_description := trim (b_description b)\<rparr>"

subsection \<open>The schema's casts and validators\<close>

definition statusOf :: "string \<Rightarrow> status option" where
  "statusOf s =
     (if s = ''upcoming'' then Some Upcoming
      else if s = ''ongoing'' then Some Ongoing
      else if s = ''completed'' then Some Completed
      else if s = ''cancelled'' then Some Cancelled
      else None)"

definition statusName :: "status \<Rightarrow> string" where
  "statusName s =
     (case s of
        Upcoming \<Rightarrow> ''upcoming''
      | Ongoing \<Rightarrow> ''ongoing''
      | Completed \<Rightarrow> ''completed''
      | Cancelled \<Rightarrow> ''cancelled'')"

text \<open>
  \<^verbatim>\<open>match: /^https?:\/\/.+/\<close>: the scheme, then at least one character that is not a line
  terminator.
\<close>

definition matchesUrl :: "string \<Rightarrow> bool" where
  "matchesUrl s =
     ((take 7 s = ''http://'' \<and> (case drop 7 s of [] \<Rightarrow> False
          | c # _ \<Rightarrow> c \<noteq> CHR 0x0A \<and> c \<noteq> CHR 0x0D))
      \<or> (take 8 s = ''https://'' \<and> (case drop 8 s of [] \<Rightarrow> False
          | c # _ \<Rightarrow> c \<noteq> CHR 0x0A \<and> c \<noteq> CHR 0x0D)))"

text \<open>
  The validators Mongoose runs at \<open>save()\<close> on the paths the body sets: \<open>required\<close>,
  \<open>maxlength\<close>, \<open>min\<close>, \<open>enum\<close>, \<open>match\<close>, and the casts to \<open>Date\<close> and \<open>Number\<close>.
  The schema trims the text paths itself, so each validator sees the trimmed value.
\<close>

definition pathsValid :: "body \<Rightarrow> bool" where
  "pathsValid b =
     (isLength 1 150 (trim (b_name b))
      \<and> (case b_date b of DateVal _ \<Rightarrow> True | _ \<Rightarrow> False)
      \<and> trim (b_time b) \<noteq> []
      \<and> isLength 1 200 (trim (b_location b))
      \<and> isLength 1 300 (trim (b_address b))
      \<and> trim (b_entryFee b) \<noteq> []
      \<and> trim (b_prizePool b) \<noteq> []
      \<and> isInt (Some 1) None (b_maxParticipants b)
      \<and> (b_currentParticipants b = Missing \<or> isInt (Some 0) None (b_currentParticipants b))
      \<and> isLength 1 100 (trim (b_format b))
      \<and> isLength 1 100 (trim (b_timeControl b))
      \<and> trim (b_category b) \<in> set categories
      \<and> matchesUrl (trim (b_registrationLink b))
      \<and> isLength 1 1000 (trim (b_description b))
      \<and> (case b_listUntil b of DateVal _ \<Rightarrow> True | _ \<Rightarrow> False)
      \<and> (case b_status b of None \<Rightarrow> True | Some s \<Rightarrow> statusOf s \<noteq> None))"

text \<open>
  \<open>Object.assign(tournament, body)\<close>, and \<open>new Tournament(body)\<close> as the same assignment
  to a document of the schema's defaults: each key the body has sets its path, cast and
  trimmed by the schema; a path whose key is absent keeps its value.
\<close>

definition assign :: "body \<Rightarrow> tournament \<Rightarrow> tournament" where
  "assign b t =
     t\<lparr>name := trim (b_name b),
       date := (case b_date b of DateVal d \<Rightarrow> d | _ \<Rightarrow> date t),
       time := trim (b_time b),
       location := trim (b_location b),
       address := trim (b_address b),
       entryFee := trim (b_entryFee b),
       prizePool := trim (b_prizePool b),
       maxParticipants := (case b_maxParticipants b of IntVal n \<Rightarrow> n | _ \<Rightarrow> maxParticipants t),
       currentParticipants :=
         (case b_currentParticipants b of IntVal n \<Rightarrow> n | _ \<Rightarrow> currentParticipants t),
       format := trim (b_format b),
       timeControl := trim (b_timeControl b),
       category := trim (b_category b),
       registrationLink := trim (b_registrationLink b),
       poster := (case b_poster b of Some s \<Rightarrow> s | None \<Rightarrow> poster t),
       posterImage := (case b_posterImage b of Some u \<Rightarrow> Some u | None \<Rightarrow> posterImage t),
       description := trim (b_description b),
       listUntil := (case b_listUntil b of DateVal d \<Rightarrow> d | _ \<Rightarrow> listUntil t),
       status := (case b_status b of
                    Some s \<Rightarrow> (case statusOf s of Some st \<Rightarrow> st | None \<Rightarrow> status t)
                  | None \<Rightarrow> status t),
       isActive := (case b_isActive b of Some a \<Rightarrow> a | None \<Rightarrow> isActive t),
       winner := (case b_winner b of Some s \<Rightarrow> Some (trim s) | None \<Rightarrow> winner t),
       finalParticipants :=
         (case b_finalParticipants b of Some n \<Rightarrow> Some n | None \<Rightarrow> finalParticipants t)\<rparr>"

text \<open>The trophy emoji of \<open>poster\<close>'s default, U+1F3C6, in UTF-8.\<close>

definition trophy :: string where
  "trophy = [CHR 0xF0, CHR 0x9F, CHR 0x8F, CHR 0x86]"

definition defaults :: tournament where
  "defaults =
     \<lparr> name = [], date = 0, time = [], location = [], address = [], entryFee = [],
       prizePool = [], maxParticipants = 0, currentParticipants = 0, format = [],
       timeControl = [], category = [], registrationLink = [], poster = trophy,
       posterImage = None, description = [], listUntil = 0, status = Upcoming,
       isActive = True, winner = None, finalParticipants = None \<rparr>"

text \<open>
  Assigning the body to document \<open>i\<close> and saving it: a path that fails its cast or a
  validator rejects the save with a \<open>ValidationError\<close> before anything is written.
\<close>

definition assignAndSave ::
  "env \<Rightarrow> nat \<Rightarrow> body \<Rightarrow> tournament \<Rightarrow> world \<Rightarrow> exn + (tournament \<times> world)" where
  "assignAndSave e i b t w =
     (if \<not> pathsValid b then Inl ValidationError
      else (case save e i (assign b t) w of
              Inl x \<Rightarrow> Inl x
            | Inr w' \<Rightarrow> Inr (assign b t, w')))"

subsection \<open>Responses\<close>

text \<open>
  \<open>Fail c m\<close> is \<open>res.status(c).json({success: false, message: m})\<close>; \<open>Done c m t\<close> is
  \<open>res.status(c).json({success: true, message: m, data: t})\<close>; \<open>Listing\<close> and \<open>Page\<close>
  are the two list replies (\<open>Page\<close> with \<open>total\<close>, \<open>totalPages\<close>, \<open>currentPage\<close>);
  \<open>Uncaught x\<close> is an exception that leaves the handler, so that the handler sends no
  response.
\<close>

datatype response =
    Fail nat string
  | Done nat string tournament
  | Listing "tournament list"
  | Page "tournament list" int "int option" int
  | Uncaught exn

text \<open>The \<open>catch\<close> block shared by the handlers that take an id.\<close>

definition onError :: "string \<Rightarrow> exn \<Rightarrow> response" where
  "onError msg x = (if x = CastError then Fail 400 ''Invalid tournament ID'' else Fail 500 msg)"

subsection \<open>\<open>GET /api/tournaments\<close>\<close>

definition publiclyListed :: "int \<Rightarrow> tournament \<Rightarrow> bool" where
  "publiclyListed now t =
     (isActive t \<and> listUntil t \<ge> now \<and> (status t = Upcoming \<or> status t = Ongoing))"

text \<open>
  The loop \<open>for (let tournament of tournaments) await tournament.updateStatus()\<close>. Each
  call reads the clock again: the \<open>k\<close>-th reading serves the document at the head. A save
  that rejects ends the loop with the writes made so far.
\<close>

fun updateEach ::
  "env \<Rightarrow> nat \<Rightarrow> (nat \<times> tournament) list \<Rightarrow> world \<Rightarrow> (exn + tournament list) \<times> world" where
  "updateEach e k [] w = (Inr [], w)"
| "updateEach e k ((i, t) # ts) w =
     (case save e i (updateStatus (zone e) (clock e k) t) w of
        Inl x \<Rightarrow> (Inl x, w)
      | Inr w' \<Rightarrow>
          (case updateEach e (Suc k) ts w' of
             (Inl x, w'') \<Rightarrow> (Inl x, w'')
           | (Inr ts', w'') \<Rightarrow> (Inr (updateStatus (zone e) (clock e k) t # ts'), w'')))"

definition getTournaments :: "env \<Rightarrow> world \<Rightarrow> response \<times> world" where
  "getTournaments e w =
     (if findFails e then (Fail 500 ''Server error while fetching tournaments'', w)
      else
        (case updateEach e 1
                (sort_key (\<lambda>(i, t). date t)
                   (filter (\<lambda>(i, t). publiclyListed (clock e 0) t) (tournaments w))) w of
           (Inl x, w') \<Rightarrow> (Fail 500 ''Server error while fetching tournaments'', w')
         | (Inr ts, w') \<Rightarrow> (Listing ts, w')))"

subsection \<open>\<open>GET /api/tournaments/:id\<close>\<close>

definition getTournament :: "env \<Rightarrow> idparam \<Rightarrow> world \<Rightarrow> response \<times> world" where
  "getTournament e p w =
     (case findById e p w of
        Inl x \<Rightarrow> (onError ''Server error while fetching tournament'' x, w)
      | Inr None \<Rightarrow> (Fail 404 ''Tournament not found'', w)
      | Inr (Some (i, t)) \<Rightarrow>
          (case save e i (updateStatus (zone e) (clock e 0) t) w of
             Inl x \<Rightarrow> (onError ''Server error while fetching tournament'' x, w)
           | Inr w' \<Rightarrow> (Done 200 [] (updateStatus (zone e) (clock e 0) t), w')))"

subsection \<open>\<open>POST /api/tournaments\<close>\<close>

text \<open>
  The \<open>catch\<close> block of the handler. Its first statement is \<open>if (cloudinaryResult)\<close>.
  The handler declares \<open>cloudinaryResult\<close> by \<open>let\<close> inside the \<open>try\<close> block and no
  enclosing scope binds the name, so evaluating the condition throws a
  \<open>ReferenceError\<close>: \<open>deleteFromCloudinary\<close>, \<open>console.error\<close> and the 500 reply
  that follow are never reached, and the exception leaves the handler with the state as
  the \<open>try\<close> block left it.
\<close>

definition postCatch :: "exn \<Rightarrow> world \<Rightarrow> response \<times> world" where
  "postCatch x w = (Uncaught ReferenceError, w)"

text \<open>
  \<open>file\<close> tells whether the request carries a \<open>posterImage\<close> file. A failed upload
  answers in the \<open>catch\<close> of the inner \<open>try\<close>; a failed save reaches the handler's
  \<open>catch\<close> block.
\<close>

definition postTournament :: "env \<Rightarrow> bool \<Rightarrow> body \<Rightarrow> world \<Rightarrow> response \<times> world" where
  "postTournament e file b w =
     (if tournamentValidation b \<noteq> [] then (Fail 400 ''Validation failed'', w)
      else if file then
        (case uploadToCloudinary e w of
           Inl x \<Rightarrow> (Fail 500 ''Failed to upload poster to cloud storage'', w)
         | Inr ((url, pid), w1) \<Rightarrow>
             (case assignAndSave e (freshId e) ((sanitize b)\<lparr>b_posterImage := Some url\<rparr>)
                     defaults w1 of
                Inr (t, w2) \<Rightarrow> (Done 201 ''Tournament created successfully'' t, w2)
              | Inl x \<Rightarrow> postCatch x w1))
      else
        (case assignAndSave e (freshId e) (sanitize b) defaults w of
           Inr (t, w2) \<Rightarrow> (Done 201 ''Tournament created successfully'' t, w2)
         | Inl x \<Rightarrow> postCatch x w))"

subsection \<open>\<open>PUT /api/tournaments/:id\<close>\<close>

text \<open>
  The \<open>catch\<close> block of the handler. As in \<open>POST\<close>, its first statement reads
  \<open>cloudinaryResult\<close>, which the handler declares by \<open>let\<close> inside the \<open>try\<close> block:
  the condition throws a \<open>ReferenceError\<close>, whatever was thrown in the \<open>try\<close> block
  and whether or not the request carries a file. The clean-up of the new image,
  \<open>fs.unlinkSync\<close> (of an \<open>fs\<close> the module does not bind either), the 400 for a
  \<open>CastError\<close> and the 500 reply are never reached.
\<close>

definition putCatch :: "exn \<Rightarrow> world \<Rightarrow> response \<times> world" where
  "putCatch x w = (Uncaught ReferenceError, w)"

definition putTournament :: "env \<Rightarrow> idparam \<Rightarrow> bool \<Rightarrow> body \<Rightarrow> world \<Rightarrow> response \<times> world" where
  "putTournament e p file b w =
     (if tournamentValidation b \<noteq> [] then (Fail 400 ''Validation failed'', w)
      else
        (case findById e p w of
           Inl x \<Rightarrow> putCatch x w
         | Inr None \<Rightarrow> (Fail 404 ''Tournament not found'', w)
         | Inr (Some (i, t)) \<Rightarrow>
             if file then
               (case uploadToCloudinary e w of
                  Inl x \<Rightarrow> (Fail 500 ''Failed to upload poster to cloud storage'', w)
                | Inr ((url, pid), w1) \<Rightarrow>
                    (case assignAndSave e i ((sanitize b)\<lparr>b_posterImage := Some url\<rparr>) t w1 of
                       Inl x \<Rightarrow> putCatch x w1
                     | Inr (t', w2) \<Rightarrow>
                         (Done 200 ''Tournament updated successfully'' t',
                          (case extractPublicId (posterImage t) of
                             None \<Rightarrow> w2
                           | Some old \<Rightarrow> snd (deleteFromCloudinary e old w2)))))
             else
               (case assignAndSave e i (sanitize b) t w of
                  Inl x \<Rightarrow> putCatch x w
                | Inr (t', w2) \<Rightarrow> (Done 200 ''Tournament updated successfully'' t', w2))))"

subsection \<open>\<open>PATCH /api/tournaments/:id/participants\<close>\<close>

text \<open>
  \<open>cp\<close> is \<open>req.body.currentParticipants\<close>: \<open>None\<close> when its \<open>typeof\<close> is not
  \<open>'number'\<close>.
\<close>

definition patchParticipants :: "env \<Rightarrow> idparam \<Rightarrow> int option \<Rightarrow> world \<Rightarrow> response \<times> world" where
  "patchParticipants e p cp w =
     (case cp of
        None \<Rightarrow> (Fail 400 ''Current participants must be a non-negative number'', w)
      | Some n \<Rightarrow>
          if n < 0 then (Fail 400 ''Current participants must be a non-negative number'', w)
          else
            (case findById e p w of
               Inl x \<Rightarrow> (onError ''Server error while updating participants'' x, w)
             | Inr None \<Rightarrow> (Fail 404 ''Tournament not found'', w)
             | Inr (Some (i, t)) \<Rightarrow>
                 if n > maxParticipants t
                 then (Fail 400 ''Current participants cannot exceed maximum participants'', w)
                 else
                   (case save e i (t\<lparr>currentParticipants := n\<rparr>) w of
                      Inl x \<Rightarrow> (onError ''Server error while updating participants'' x, w)
                    | Inr w' \<Rightarrow>
                        (Done 200 ''Participant count updated successfully''
                           (t\<lparr>currentParticipants := n\<rparr>), w'))))"

subsection \<open>\<open>PATCH /api/tournaments/:id/complete\<close>\<close>

text \<open>
  \<open>win\<close> and \<open>fin\<close> are \<open>req.body.winner\<close> (a string) and
  \<open>req.body.finalParticipants\<close> (a number), \<open>None\<close> when absent.
  \<open>finalParticipants || tournament.currentParticipants\<close> takes the right operand when
  the left one is absent or \<open>0\<close>.
\<close>

definition orElse :: "int option \<Rightarrow> int \<Rightarrow> int" where
  "orElse a b = (case a of None \<Rightarrow> b | Some n \<Rightarrow> if n = 0 then b else n)"

definition patchComplete ::
  "env \<Rightarrow> idparam \<Rightarrow> string option \<Rightarrow> int option \<Rightarrow> world \<Rightarrow> response \<times> world" where
  "patchComplete e p win fin w =
     (case win of
        None \<Rightarrow> (Fail 400 ''Winner name is required'', w)
      | Some s \<Rightarrow>
          if s = [] \<or> trim s = [] then (Fail 400 ''Winner name is required'', w)
          else
            (case findById e p w of
               Inl x \<Rightarrow> (onError ''Server error while completing tournament'' x, w)
             | Inr None \<Rightarrow> (Fail 404 ''Tournament not found'', w)
             | Inr (Some (i, t)) \<Rightarrow>
                 (case save e i
                         (t\<lparr>status := Completed, winner := Some (trim s),
                            finalParticipants := Some (orElse fin (currentParticipants t))\<rparr>) w of
                    Inl x \<Rightarrow> (onError ''Server error while completing tournament'' x, w)
                  | Inr w' \<Rightarrow>
                      (Done 200 ''Tournament marked as completed''
                         (t\<lparr>status := Completed, winner := Some (trim s),
                            finalParticipants := Some (orElse fin (currentParticipants t))\<rparr>),
                       w'))))"

subsection \<open>\<open>PATCH /api/tournaments/:id/toggle-status\<close>\<close>

definition patchToggleStatus :: "env \<Rightarrow> idparam \<Rightarrow> world \<Rightarrow> response \<times> world" where
  "patchToggleStatus e p w =
     (case findById e p w of
        Inl x \<Rightarrow> (onError ''Server error while updating tournament status'' x, w)
      | Inr None \<Rightarrow> (Fail 404 ''Tournament not found'', w)
      | Inr (Some (i, t)) \<Rightarrow>
          (case save e i (t\<lparr>isActive := \<not> isActive t\<rparr>) w of
             Inl x \<Rightarrow> (onError ''Server error while updating tournament status'' x, w)
           | Inr w' \<Rightarrow>
               (Done 200 (if \<not> isActive t then ''Tournament activated successfully''
                          else ''Tournament deactivated successfully'')
                  (t\<lparr>isActive := \<not> isActive t\<rparr>), w')))"

subsection \<open>\<open>GET /api/tournaments/admin\<close>\<close>

text \<open>
  The query string, each key \<open>None\<close> when absent; \<open>page\<close> and \<open>limit\<close> are read as
  the integers their text denotes.
\<close>

record adminRequest =
  r_page :: "int option"
  r_limit :: "int option"
  r_search :: "string option"
  r_status :: "string option"
  r_category :: "string option"

text \<open>
  The filter object handed to \<open>Tournament.find\<close>: the clauses of \<open>$or\<close> (path,
  \<open>$regex\<close>, \<open>$options\<close>) when the key is set, and the three equality tests.
\<close>

datatype path = NamePath | LocationPath | CategoryPath

record query =
  q_or :: "(path \<times> string \<times> string) list option"
  q_isActive :: "bool option"
  q_status :: "string option"
  q_category :: "string option"

definition buildQuery :: "string \<Rightarrow> string \<Rightarrow> string \<Rightarrow> query" where
  "buildQuery search st cat =
     \<lparr> q_or =
         (if search \<noteq> []
          then Some [(NamePath, search, ''i''), (LocationPath, search, ''i''),
                     (CategoryPath, search, ''i'')]
          else None),
       q_isActive =
         (if st \<noteq> ''all''
          then (if st = ''active'' then Some True
                else if st = ''inactive'' then Some False else None)
          else None),
       q_status =
         (if st \<noteq> ''all''
          then (if st = ''active'' then None
                else if st = ''inactive'' then None else Some st)
          else None),
       q_category = (if cat \<noteq> ''all'' then Some cat else None) \<rparr>"

definition pathValue :: "path \<Rightarrow> tournament \<Rightarrow> string" where
  "pathValue p t =
     (case p of NamePath \<Rightarrow> name t | LocationPath \<Rightarrow> location t | CategoryPath \<Rightarrow> category t)"

text \<open>How the database reads the filter: every key set must hold, \<open>$or\<close> by one clause.\<close>

definition clauseHolds :: "env \<Rightarrow> tournament \<Rightarrow> path \<times> string \<times> string \<Rightarrow> bool" where
  "clauseHolds e t c =
     (case c of (p, r, opts) \<Rightarrow>
        (case regex e r opts of None \<Rightarrow> False | Some m \<Rightarrow> m (pathValue p t)))"

definition matches :: "env \<Rightarrow> query \<Rightarrow> tournament \<Rightarrow> bool" where
  "matches e q t =
     ((case q_or q of None \<Rightarrow> True | Some cs \<Rightarrow> list_ex (clauseHolds e t) cs)
      \<and> (case q_isActive q of None \<Rightarrow> True | Some a \<Rightarrow> isActive t = a)
      \<and> (case q_status q of None \<Rightarrow> True | Some s \<Rightarrow> statusName (status t) = s)
      \<and> (case q_category q of None \<Rightarrow> True | Some c \<Rightarrow> category t = c))"

definition compiles :: "env \<Rightarrow> query \<Rightarrow> bool" where
  "compiles e q =
     (case q_or q of
        None \<Rightarrow> True
      | Some cs \<Rightarrow> list_all (\<lambda>c. case c of (p, r, opts) \<Rightarrow> regex e r opts \<noteq> None) cs)"

text \<open>
  \<open>find(query).sort({date: -1})\<close>, the whole result before \<open>skip\<close> and \<open>limit\<close>;
  \<open>countDocuments(query)\<close> is its length.
\<close>

definition findSorted :: "env \<Rightarrow> query \<Rightarrow> world \<Rightarrow> tournament list" where
  "findSorted e q w =
     map snd (sort_key (\<lambda>(i, t). - date t) (filter (\<lambda>(i, t). matches e q t) (tournaments w)))"

text \<open>
  \<open>Math.ceil(total / limit)\<close>; for \<open>limit = 0\<close> the quotient is not finite and the
  reply carries \<open>null\<close>.
\<close>

definition totalPages :: "int \<Rightarrow> int \<Rightarrow> int option" where
  "totalPages cnt lmt =
     (if lmt = 0 then None else Some \<lceil>real_of_int cnt / real_of_int lmt\<rceil>)"

text \<open>
  The database rejects a negative \<open>skip\<close>; it reads a \<open>limit\<close> of \<open>0\<close> as no limit
  and a negative one by its absolute value.
\<close>

definition getAdmin :: "env \<Rightarrow> adminRequest \<Rightarrow> world \<Rightarrow> response \<times> world" where
  "getAdmin e r w =
     (let pg = (case r_page r of None \<Rightarrow> 1 | Some n \<Rightarrow> n);
          lmt = (case r_limit r of None \<Rightarrow> 10 | Some n \<Rightarrow> n);
          search = (case r_search r of None \<Rightarrow> [] | Some s \<Rightarrow> s);
          st = (case r_status r of None \<Rightarrow> ''all'' | Some s \<Rightarrow> s);
          cat = (case r_category r of None \<Rightarrow> ''all'' | Some s \<Rightarrow> s);
          q = buildQuery search st cat
      in if findFails e \<or> \<not> compiles e q \<or> (pg - 1) * lmt < 0
         then (Fail 500 ''Server error while fetching tournaments'', w)
         else
           (Page
              ((if lmt = 0 then (\<lambda>xs. xs) else take (nat \<bar>lmt\<bar>))
                 (drop (nat ((pg - 1) * lmt)) (findSorted e q w)))
              (int (length (findSorted e q w)))
              (totalPages (int (length (findSorted e q w))) lmt)
              pg,
            w))"

subsection \<open>The participant invariant\<close>

definition withinCapacity :: "tournament \<Rightarrow> bool" where
  "withinCapacity t = (0 \<le> currentParticipants t \<and> currentParticipants t \<le> maxParticipants t)"

subsection \<open>Sample requests and environments\<close>

text \<open>
  A creation form for the sample tournament that announces ten current participants for
  five places.
\<close>

definition entryForm :: body where
  "entryForm =
     \<lparr> b_name = '' Autumn Open '', b_date = DateVal 1793664000000, b_time = ''10:00'',
       b_location = ''Main Hall'', b_address = ''1 King Street'', b_entryFee = ''500'',
       b_prizePool = ''10000'', b_maxParticipants = IntVal 5, b_format = ''Swiss'',
       b_timeControl = ''15+10'', b_category = ''Rapid'',
       b_registrationLink = ''https://example.org/r'', b_description = ''Seven rounds'',
       b_listUntil = DateVal 1796083200000, b_currentParticipants = IntVal 10,
       b_poster = None, b_posterImage = None, b_status = None, b_isActive = None,
       b_winner = None, b_finalParticipants = None \<rparr>"

text \<open>
  A literal engine for \<open>$regex\<close>: it compiles patterns of ASCII letters with the option
  \<open>i\<close> to the case-insensitive substring test, and nothing else.
\<close>

definition isLetter :: "char \<Rightarrow> bool" where
  "isLetter c =
     ((65 \<le> (of_char c :: nat) \<and> (of_char c :: nat) \<le> 90)
      \<or> (97 \<le> (of_char c :: nat) \<and> (of_char c :: nat) \<le> 122))"

definition toLower :: "char \<Rightarrow> nat" where
  "toLower c =
     (if 65 \<le> (of_char c :: nat) \<and> (of_char c :: nat) \<le> 90 then of_char c + 32 else of_char c)"

fun startsWithCI :: "string \<Rightarrow> string \<Rightarrow> bool" where
  "startsWithCI [] s = True"
| "startsWithCI (p # ps) [] = False"
| "startsWithCI (p # ps) (c # cs) = (toLower p = toLower c \<and> startsWithCI ps cs)"

fun containsCI :: "string \<Rightarrow> string \<Rightarrow> bool" where
  "containsCI p [] = (p = [])"
| "containsCI p (c # cs) = (startsWithCI p (c # cs) \<or> containsCI p cs)"

definition literalRegex :: "string \<Rightarrow> string \<Rightarrow> (string \<Rightarrow> bool) option" where
  "literalRegex r opts =
     (if list_all isLetter r \<and> opts = ''i'' then Some (containsCI r) else None)"

definition never :: "'a \<Rightarrow> bool" where
  "never x = False"

definition always :: "'a \<Rightarrow> bool" where
  "always x = True"

definition clockAt :: "int \<Rightarrow> nat \<Rightarrow> int" where
  "clockAt t k = t"

text \<open>
  A server in UTC at noon of 3 November 2026 whose collaborators all answer, and the same
  with a database that rejects every write.
\<close>

definition atNoon :: env where
  "atNoon =
     \<lparr> zone = utc, clock = clockAt noon, findFails = False, saveFails = never,
       uploadResult =
         Some (''https://res.cloudinary.com/c/image/upload/v1/aspire-chess-academy/posters/poster-2.jpg'',
               ''aspire-chess-academy/posters/poster-2''),
       destroyFails = never, freshId = 2, regex = literalRegex \<rparr>"

definition writesFail :: env where
  "writesFail = atNoon\<lparr>saveFails := always\<rparr>"

text \<open>
  A database that holds the sample tournament as document 1, its poster
  \<open>poster-1\<close> on Cloudinary.
\<close>

definition posterUrl :: string where
  "posterUrl =
     ''https://res.cloudinary.com/c/image/upload/v1/aspire-chess-academy/posters/poster-1.jpg''"

definition club :: world where
  "club =
     \<lparr> tournaments = [(1, autumnOpen\<lparr>posterImage := Some posterUrl\<rparr>)],
       cloud = {''aspire-chess-academy/posters/poster-1''},
       trace = [] \<rparr>"

text \<open>The same server one day earlier, at noon of 2 November 2026.\<close>

definition dayBefore :: env where
  "dayBefore = atNoon\<lparr>clock := clockAt (noon - msPerDay)\<rparr>"

text \<open>
  A database with four tournaments, stored in this order: one on 12 December 2026, the
  sample tournament, one that an administrator has deactivated, and one that was
  cancelled.
\<close>

definition winterRapid :: tournament where
  "winterRapid =
     autumnOpen\<lparr>name := ''Winter Rapid'', date := 1797033600000, listUntil := 1798675200000\<rparr>"

definition hiddenBlitz :: tournament where
  "hiddenBlitz = autumnOpen\<lparr>name := ''Hidden Blitz'', date := 1790812800000, isActive := False\<rparr>"

definition calledOff :: tournament where
  "calledOff = winterRapid\<lparr>name := ''Called Off'', status := Cancelled\<rparr>"

definition season :: world where
  "season =
     \<lparr> tournaments = [(1, winterRapid), (2, autumnOpen), (3, hiddenBlitz), (4, calledOff)],
       cloud = {}, trace = [] \<rparr>"



text \<open>The sample database after an administrator has cancelled the tournament.\<close>

definition cancelledClub :: world where
  "cancelledClub = club\<lparr>tournaments := [(1, autumnOpen\<lparr>status := Cancelled\<rparr>)]\<rparr>"

section \<open>Status recomputation\<close>

lemma updateStatus_status:
  "status (updateStatus tz now t) =
     (if date t < now then Completed
      else if toDateString tz now = toDateString tz (date t) then Ongoing
      else Upcoming)"
  by (simp add: updateStatus_def)

lemma updateStatus_fields:
  "updateStatus tz now t = t\<lparr>status := status (updateStatus tz now t)\<rparr>"
  by (simp add: updateStatus_def)


text \<open>
  C1 (as stated, refuted): a cancelled tournament whose date has passed is set to
  \<open>completed\<close> by the recomputation, and \<open>GET /api/tournaments/:id\<close> stores it so.
\<close>

theorem cancelled_not_sticky_counterexample:
  "status (autumnOpen\<lparr>status := Cancelled\<rparr>) = Cancelled
   \<and> status (updateStatus utc noon (autumnOpen\<lparr>status := Cancelled\<rparr>)) = Completed
   \<and> map_option status (map_of (tournaments cancelledClub) 1) = Some Cancelled
   \<and> map_option status
        (map_of (tournaments (snd (getTournament atNoon (Id 1) cancelledClub))) 1)
       = Some Completed"
  by (simp add: updateStatus_def autumnOpen_def noon_def getTournament_def findById_def
      save_def cancelledClub_def club_def atNoon_def never_def clockAt_def)

text \<open>
  C1 (amended): for every tournament whose status is cancelled and for every clock value,
  the recomputation overwrites the status with the one derived from the scheduled date
  (completed when the clock is after the date, else ongoing on the date's calendar day,
  else upcoming), so the status after it is never cancelled; no other field changes.
\<close>

theorem cancelled_overwritten:
  assumes "status t = Cancelled"
  shows "status (updateStatus tz now t) \<noteq> Cancelled
         \<and> status (updateStatus tz now t) =
             (if date t < now then Completed
              else if toDateString tz now = toDateString tz (date t) then Ongoing
              else Upcoming)
         \<and> updateStatus tz now t = t\<lparr>status := status (updateStatus tz now t)\<rparr>"
proof -
  have "status (updateStatus tz now t) \<noteq> Cancelled"
    by (simp add: updateStatus_status)
  moreover note updateStatus_status [of tz now t]
  moreover note updateStatus_fields [of tz now t]
  ultimately show ?thesis
    by blast
qed

theorem cancelled_overwritten_witness:
  "status (autumnOpen\<lparr>status := Cancelled\<rparr>) = Cancelled
   \<and> status (updateStatus utc (date autumnOpen - 1) (autumnOpen\<lparr>status := Cancelled\<rparr>))
       = Upcoming"
proof -
  have c: "status (autumnOpen\<lparr>status := Cancelled\<rparr>) = Cancelled"
    by simp
  from cancelled_overwritten [OF c, of utc "date autumnOpen - 1"]
  show ?thesis
    by (simp add: toDateString_def utc_def msPerDay_def autumnOpen_def)
qed




text \<open>
  C10: the recomputation is idempotent at a fixed clock value, and the status it yields is
  the same for any two tournaments with the same scheduled date, whatever status (or any
  other field) they held before.
\<close>

theorem updateStatus_idempotent_history_free:
  "updateStatus tz now (updateStatus tz now t) = updateStatus tz now t
   \<and> status (updateStatus tz now (updateStatus tz now t)) = status (updateStatus tz now t)
   \<and> (if date t = date t'
       then status (updateStatus tz now t) = status (updateStatus tz now t') else True)"
  by (simp add: updateStatus_def)

theorem updateStatus_idempotent_history_free_witness:
  "date (autumnOpen\<lparr>status := Completed, name := ''Other''\<rparr>) = date autumnOpen
   \<and> status (updateStatus utc 0 (autumnOpen\<lparr>status := Completed, name := ''Other''\<rparr>))
       = status (updateStatus utc 0 autumnOpen)
   \<and> status (updateStatus utc 0 autumnOpen) = Upcoming"
  using updateStatus_idempotent_history_free
    [of utc 0 "autumnOpen\<lparr>status := Completed, name := ''Other''\<rparr>" autumnOpen]
  by (simp add: updateStatus_def autumnOpen_def toDateString_def utc_def msPerDay_def)

section \<open>Evaluating the handlers\<close>

lemmas eval_defs =
  postTournament_def postCatch_def putTournament_def putCatch_def tournamentValidation_def
  entryForm_def
  check_def isLength_def trim_def isSpace_def isInt_def categories_def sanitize_def
  assignAndSave_def pathsValid_def matchesUrl_def save_def atNoon_def writesFail_def
  never_def always_def assign_def defaults_def uploadToCloudinary_def deleteFromCloudinary_def
  findById_def club_def autumnOpen_def onError_def statusOf_def

lemma entryForm_valid: "tournamentValidation entryForm = []"
  by (simp add: eval_defs)

section \<open>The public listing\<close>

lemma updateEach_dates:
  "updateEach e k xs w = (Inr ts, w') \<Longrightarrow> map date ts = map (\<lambda>(i, t). date t) xs"
proof (induction xs arbitrary: k w ts w')
  case Nil
  then show ?case by simp
next
  case (Cons x xs)
  obtain i t where x: "x = (i, t)" by (cases x)
  from Cons.prems x obtain w1 ts1 where
    r: "updateEach e (Suc k) xs w1 = (Inr ts1, w')"
    and ts: "ts = updateStatus (zone e) (clock e k) t # ts1"
    by (auto split: sum.splits prod.splits)
  from Cons.IH [OF r] ts x show ?case
    by (simp add: updateStatus_def)
qed

lemma updateEach_source:
  "updateEach e k xs w = (Inr ts, w') \<Longrightarrow> t' \<in> set ts \<Longrightarrow>
     \<exists>i t j. (i, t) \<in> set xs \<and> t' = updateStatus (zone e) (clock e j) t"
proof (induction xs arbitrary: k w ts w')
  case Nil
  then show ?case by simp
next
  case (Cons x xs)
  obtain i t where x: "x = (i, t)" by (cases x)
  from Cons.prems(1) x obtain w1 ts1 where
    r: "updateEach e (Suc k) xs w1 = (Inr ts1, w')"
    and ts: "ts = updateStatus (zone e) (clock e k) t # ts1"
    by (auto split: sum.splits prod.splits)
  show ?case
  proof (cases "t' \<in> set ts1")
    case True
    from Cons.IH [OF r True] show ?thesis by auto
  next
    case False
    with Cons.prems(2) ts have "t' = updateStatus (zone e) (clock e k) t" by simp
    with x show ?thesis by auto
  qed
qed

lemma getTournaments_Listing:
  assumes "getTournaments e w = (Listing ts, w')"
  shows "\<exists>w0. updateEach e 1
           (sort_key (\<lambda>(i, t). date t)
              (filter (\<lambda>(i, t). publiclyListed (clock e 0) t) (tournaments w))) w
         = (Inr ts, w0)"
  using assms
  by (auto simp add: getTournaments_def split: if_splits sum.splits prod.splits)

text \<open>
  What the listing does hold to: every document it returns was selected by the filter on
  its stored fields and is returned active, still listed, and with the recomputed status;
  the reply is in ascending order of the scheduled dates.
\<close>

lemma getTournaments_listed:
  assumes "getTournaments e w = (Listing ts, w')"
  shows "(\<forall>t \<in> set ts.
            isActive t \<and> listUntil t \<ge> clock e 0
            \<and> (\<exists>i s j. (i, s) \<in> set (tournaments w) \<and> publiclyListed (clock e 0) s
                  \<and> t = updateStatus (zone e) (clock e j) s))
         \<and> sorted (map date ts)"
proof -
  let ?found = "sort_key (\<lambda>(i, t). date t)
      (filter (\<lambda>(i, t). publiclyListed (clock e 0) t) (tournaments w))"
  from getTournaments_Listing [OF assms] obtain w0 where
    u: "updateEach e 1 ?found w = (Inr ts, w0)" by blast
  have "sorted (map (\<lambda>(i, t). date t) ?found)"
    by (rule sorted_sort_key)
  with updateEach_dates [OF u] have sorted: "sorted (map date ts)"
    by simp
  have each: "isActive t \<and> listUntil t \<ge> clock e 0
            \<and> (\<exists>i s j. (i, s) \<in> set (tournaments w) \<and> publiclyListed (clock e 0) s
                  \<and> t = updateStatus (zone e) (clock e j) s)" if "t \<in> set ts" for t
  proof -
    from updateEach_source [OF u that] obtain i s j where
      m: "(i, s) \<in> set ?found" and t: "t = updateStatus (zone e) (clock e j) s"
      by blast
    from m have src: "(i, s) \<in> set (tournaments w)" and pl: "publiclyListed (clock e 0) s"
      by auto
    from pl t have "isActive t" "listUntil t \<ge> clock e 0"
      by (simp_all add: publiclyListed_def updateStatus_def)
    then show ?thesis
      using src pl t by blast
  qed
  from each sorted show ?thesis
    by blast
qed

lemma getTournaments_day_before:
  "fst (getTournaments dayBefore season) = Listing [autumnOpen, winterRapid]"
  by (simp add: getTournaments_def publiclyListed_def updateStatus_def clockAt_def noon_def
      eval_defs dayBefore_def toDateString_def utc_def msPerDay_def season_def
      winterRapid_def hiddenBlitz_def calledOff_def)

text \<open>
  C3 (the code departs from the claim): the handler selects the documents whose stored
  status is upcoming or ongoing and recomputes the status afterwards. At noon of the
  sample tournament's day its stored status is still \<open>upcoming\<close>, so it is selected; the
  recomputation sets it to \<open>completed\<close>, and the reply carries it with that status,
  before the tournament of December. The inactive and the cancelled documents are left
  out, and the same request sent again no longer returns the completed one.
\<close>

theorem getTournaments_returns_completed:
  "map_option status (map_of (tournaments season) 2) = Some Upcoming
   \<and> fst (getTournaments atNoon season) =
       Listing [autumnOpen\<lparr>status := Completed\<rparr>, winterRapid]
   \<and> status (autumnOpen\<lparr>status := Completed\<rparr>) = Completed
   \<and> map_option status (map_of (tournaments (snd (getTournaments atNoon season))) 2)
       = Some Completed
   \<and> fst (getTournaments atNoon (snd (getTournaments atNoon season))) = Listing [winterRapid]"
proof -
  have first: "getTournaments atNoon season =
      (Listing [autumnOpen\<lparr>status := Completed\<rparr>, winterRapid],
       \<lparr> tournaments = [(1, winterRapid), (2, autumnOpen\<lparr>status := Completed\<rparr>),
                        (3, hiddenBlitz), (4, calledOff)],
         cloud = {}, trace = [Saved 2, Saved 1] \<rparr>)"
    by (simp add: getTournaments_def publiclyListed_def updateStatus_def clockAt_def noon_def
        eval_defs toDateString_def utc_def msPerDay_def season_def
        winterRapid_def hiddenBlitz_def calledOff_def)
  have second: "fst (getTournaments atNoon
       \<lparr> tournaments = [(1, winterRapid), (2, autumnOpen\<lparr>status := Completed\<rparr>),
                        (3, hiddenBlitz), (4, calledOff)],
         cloud = {}, trace = [Saved 2, Saved 1] \<rparr>) = Listing [winterRapid]"
    by (simp add: getTournaments_def publiclyListed_def updateStatus_def clockAt_def noon_def
        eval_defs toDateString_def utc_def msPerDay_def
        winterRapid_def hiddenBlitz_def calledOff_def)
  have stored: "map_option status (map_of (tournaments season) 2) = Some Upcoming"
    by (simp add: season_def autumnOpen_def)
  from first second stored show ?thesis
    by simp
qed

section \<open>Participant counts\<close>

text \<open>
  C8: for every existing tournament \<open>t\<close> and integer \<open>n\<close>, the participant-count patch
  answers 400 and leaves the database as it was when \<open>n < 0\<close> or
  \<open>n > maxParticipants t\<close>; otherwise, the boundary \<open>n = maxParticipants t\<close> included,
  it sets \<open>currentParticipants\<close> to \<open>n\<close> and saves the document (when the database
  rejects the write, it answers 500 and nothing is stored).
\<close>

theorem patchParticipants_range:
  assumes "map_of (tournaments w) i = Some t" and "\<not> findFails e"
  shows "patchParticipants e (Id i) (Some n) w =
           (if n < 0 then (Fail 400 ''Current participants must be a non-negative number'', w)
            else if n > maxParticipants t
            then (Fail 400 ''Current participants cannot exceed maximum participants'', w)
            else if saveFails e i
            then (Fail 500 ''Server error while updating participants'', w)
            else (Done 200 ''Participant count updated successfully''
                    (t\<lparr>currentParticipants := n\<rparr>),
                  w\<lparr>tournaments := AList.update i (t\<lparr>currentParticipants := n\<rparr>) (tournaments w),
                    trace := trace w @ [Saved i]\<rparr>))
         \<and> (if 0 \<le> n \<and> n \<le> maxParticipants t \<and> \<not> saveFails e i
            then map_of (tournaments (snd (patchParticipants e (Id i) (Some n) w)))
                   = (map_of (tournaments w))(i \<mapsto> t\<lparr>currentParticipants := n\<rparr>)
            else snd (patchParticipants e (Id i) (Some n) w) = w)"
  using assms
  by (simp add: patchParticipants_def findById_def save_def onError_def update_conv')

theorem patchParticipants_range_witness:
  "map_of (tournaments club) 1 = Some (autumnOpen\<lparr>posterImage := Some posterUrl\<rparr>)
   \<and> \<not> findFails atNoon
   \<and> patchParticipants atNoon (Id 1) (Some 6) club =
       (Fail 400 ''Current participants cannot exceed maximum participants'', club)
   \<and> patchParticipants atNoon (Id 1) (Some (- 1)) club =
       (Fail 400 ''Current participants must be a non-negative number'', club)
   \<and> map_of (tournaments (snd (patchParticipants atNoon (Id 1) (Some 5) club))) 1 =
       Some (autumnOpen\<lparr>posterImage := Some posterUrl, currentParticipants := 5\<rparr>)"
proof -
  have a: "map_of (tournaments club) 1 = Some (autumnOpen\<lparr>posterImage := Some posterUrl\<rparr>)"
    by (simp add: club_def)
  have b: "\<not> findFails atNoon"
    by (simp add: atNoon_def)
  have c: "maxParticipants (autumnOpen\<lparr>posterImage := Some posterUrl\<rparr>) = 5"
    by (simp add: autumnOpen_def)
  have d: "\<not> saveFails atNoon 1"
    by (simp add: atNoon_def never_def)
  from patchParticipants_range [OF a b, of 6] patchParticipants_range [OF a b, of "- 1"]
    patchParticipants_range [OF a b, of 5] a b c d
  show ?thesis
    by (simp add: update_conv')
qed

text \<open>
  The three patches keep \<open>0 \<le> currentParticipants \<le> maxParticipants\<close> on the document
  they address: the count patch establishes it, the other two do not touch the counts.
\<close>

lemma patches_keep_capacity:
  assumes "map_of (tournaments w) i = Some t" and "withinCapacity t"
  shows "map_of (tournaments (snd (patchParticipants e (Id i) cp w))) i = Some t'
           \<Longrightarrow> withinCapacity t'"
    and "map_of (tournaments (snd (patchComplete e (Id i) win fin w))) i = Some t'
           \<Longrightarrow> withinCapacity t'"
    and "map_of (tournaments (snd (patchToggleStatus e (Id i) w))) i = Some t'
           \<Longrightarrow> withinCapacity t'"
  using assms
  by (auto simp add: patchParticipants_def patchComplete_def patchToggleStatus_def
      findById_def save_def update_conv' withinCapacity_def
      split: option.splits if_splits)

section \<open>Completion\<close>

text \<open>
  C5 (as stated, refuted): a completion request that supplies \<open>finalParticipants = 0\<close>
  for a tournament with three current participants stores \<open>finalParticipants = 3\<close>, not
  the supplied value.
\<close>

theorem patchComplete_zero_counterexample:
  "map_option currentParticipants (map_of (tournaments club) 1) = Some 3
   \<and> map_option finalParticipants
       (map_of (tournaments (snd (patchComplete atNoon (Id 1) (Some ''Alice'') (Some 0) club))) 1)
     = Some (Some 3)"
  by (simp add: patchComplete_def eval_defs orElse_def)

text \<open>
  C5 (amended): for every existing tournament \<open>t\<close>, the completion patch answers 400 and
  leaves the database as it was when \<open>winner\<close> is absent, empty or blank; otherwise it
  sets \<open>status = completed\<close>, \<open>winner = trim(winner)\<close>, and \<open>finalParticipants\<close> to the
  supplied value when one is supplied and is not \<open>0\<close>, else to \<open>t\<close>'s
  \<open>currentParticipants\<close>, and saves the document (when the database rejects the write,
  it answers 500 and nothing is stored).
\<close>

theorem patchComplete_sets:
  assumes "map_of (tournaments w) i = Some t" and "\<not> findFails e"
  shows "patchComplete e (Id i) None fin w = (Fail 400 ''Winner name is required'', w)
       \<and> patchComplete e (Id i) (Some s) fin w =
           (if s = [] \<or> trim s = [] then (Fail 400 ''Winner name is required'', w)
            else if saveFails e i
            then (Fail 500 ''Server error while completing tournament'', w)
            else (Done 200 ''Tournament marked as completed''
                    (t\<lparr>status := Completed, winner := Some (trim s),
                       finalParticipants :=
                         Some (case fin of
                                 None \<Rightarrow> currentParticipants t
                               | Some n \<Rightarrow> if n = 0 then currentParticipants t else n)\<rparr>),
                  w\<lparr>tournaments :=
                      AList.update i
                        (t\<lparr>status := Completed, winner := Some (trim s),
                           finalParticipants :=
                             Some (case fin of
                                     None \<Rightarrow> currentParticipants t
                                   | Some n \<Rightarrow> if n = 0 then currentParticipants t else n)\<rparr>)
                        (tournaments w),
                    trace := trace w @ [Saved i]\<rparr>))"
  using assms
  by (simp add: patchComplete_def findById_def save_def onError_def orElse_def)

theorem patchComplete_sets_witness:
  "map_of (tournaments club) 1 = Some (autumnOpen\<lparr>posterImage := Some posterUrl\<rparr>)
   \<and> \<not> findFails atNoon
   \<and> fst (patchComplete atNoon (Id 1) (Some ''  Alice  '') (Some 4) club) =
       Done 200 ''Tournament marked as completed''
         (autumnOpen\<lparr>posterImage := Some posterUrl, status := Completed,
            winner := Some ''Alice'', finalParticipants := Some 4\<rparr>)
   \<and> patchComplete atNoon (Id 1) (Some ''  '') (Some 4) club =
       (Fail 400 ''Winner name is required'', club)"
proof -
  have a: "map_of (tournaments club) 1 = Some (autumnOpen\<lparr>posterImage := Some posterUrl\<rparr>)"
    by (simp add: club_def)
  have b: "\<not> findFails atNoon"
    by (simp add: atNoon_def)
  have c: "trim ''  Alice  '' = ''Alice''" "trim ''  '' = []"
    by (simp_all add: trim_def isSpace_def)
  have d: "\<not> saveFails atNoon 1"
    by (simp add: atNoon_def never_def)
  from patchComplete_sets [OF a b, of "Some 4" "''  Alice  ''"]
    patchComplete_sets [OF a b, of "Some 4" "''  ''"] a b c d
  show ?thesis
    by simp
qed

section \<open>Creation\<close>

text \<open>
  C2 (the code departs from the claim): a form that passes the validation chain and the
  schema with ten current participants for five places is stored as it is by the creation
  handler, and by the update handler likewise, so the stored document has
  \<open>currentParticipants > maxParticipants\<close>; the participant-count patch rejects the
  same count for the same tournament.
\<close>

theorem postTournament_exceeds_max:
  "fst (postTournament atNoon False entryForm club) =
     Done 201 ''Tournament created successfully''
       (autumnOpen\<lparr>poster := trophy, currentParticipants := 10\<rparr>)
   \<and> map_of (tournaments (snd (postTournament atNoon False entryForm club))) 2 =
       Some (autumnOpen\<lparr>poster := trophy, currentParticipants := 10\<rparr>)
   \<and> maxParticipants (autumnOpen\<lparr>poster := trophy, currentParticipants := 10\<rparr>) = 5
   \<and> map_option currentParticipants
        (map_of (tournaments (snd (putTournament atNoon (Id 1) False entryForm club))) 1)
       = Some 10
   \<and> map_option maxParticipants
        (map_of (tournaments (snd (putTournament atNoon (Id 1) False entryForm club))) 1)
       = Some 5
   \<and> fst (patchParticipants atNoon (Id 1) (Some 10) club) =
       Fail 400 ''Current participants cannot exceed maximum participants''"
  by (simp add: eval_defs patchParticipants_def)

text \<open>
  What the creation handler does when the save fails after the upload, for every request:
  the exception of its \<open>catch\<close> block leaves the handler, the uploaded image stays on
  Cloudinary, no \<open>destroy\<close> is called, and no document is stored.
\<close>

lemma postTournament_failed_save:
  assumes "tournamentValidation b = []"
    and "uploadResult e = Some (url, pid)"
    and "saveFails e (freshId e) \<or> \<not> pathsValid ((sanitize b)\<lparr>b_posterImage := Some url\<rparr>)"
  shows "postTournament e True b w =
           (Uncaught ReferenceError,
            w\<lparr>cloud := insert pid (cloud w), trace := trace w @ [Uploaded pid]\<rparr>)"
  using assms
  by (auto simp add: postTournament_def uploadToCloudinary_def assignAndSave_def save_def
      postCatch_def)

text \<open>
  C6 (the code departs from the claim): a creation request with a poster whose upload
  succeeds and whose save the database rejects. The claim has the uploaded image deleted
  and the persistence error returned; the handler's \<open>catch\<close> block throws a
  \<open>ReferenceError\<close> at its first statement, so the image stays on Cloudinary, no
  \<open>destroy\<close> is called and no response is sent.
\<close>

theorem postTournament_failed_save_uncaught:
  "tournamentValidation entryForm = []
   \<and> saveFails writesFail (freshId writesFail)
   \<and> postTournament writesFail True entryForm club =
       (Uncaught ReferenceError,
        club\<lparr>cloud := {''aspire-chess-academy/posters/poster-2'',
                       ''aspire-chess-academy/posters/poster-1''},
             trace := [Uploaded ''aspire-chess-academy/posters/poster-2'']\<rparr>)
   \<and> ''aspire-chess-academy/posters/poster-2''
       \<in> cloud (snd (postTournament writesFail True entryForm club))"
  by (simp add: eval_defs)


section \<open>Update with image replacement\<close>

text \<open>
  What the update handler does hold to. When the save fails after the upload, the
  database is as before and the old image is not touched. When the save succeeds, the id
  that \<open>extractPublicId\<close> finds in the document's previous \<open>posterImage\<close>, if any, is
  destroyed after the write. Without a file, Cloudinary is not called.
\<close>

lemma putTournament_failed_save:
  assumes "tournamentValidation b = []"
    and "map_of (tournaments w) i = Some t" and "\<not> findFails e"
    and "uploadResult e = Some (url, pid)"
    and "saveFails e i \<or> \<not> pathsValid ((sanitize b)\<lparr>b_posterImage := Some url\<rparr>)"
  shows "putTournament e (Id i) True b w =
           (Uncaught ReferenceError,
            w\<lparr>cloud := insert pid (cloud w), trace := trace w @ [Uploaded pid]\<rparr>)"
  using assms
  by (auto simp add: putTournament_def findById_def uploadToCloudinary_def assignAndSave_def
      save_def putCatch_def)

lemma putTournament_replaced:
  assumes "tournamentValidation b = []"
    and "map_of (tournaments w) i = Some t" and "\<not> findFails e"
    and "uploadResult e = Some (url, pid)"
    and "\<not> saveFails e i" and "pathsValid ((sanitize b)\<lparr>b_posterImage := Some url\<rparr>)"
  shows "fst (putTournament e (Id i) True b w) =
           Done 200 ''Tournament updated successfully''
             (assign ((sanitize b)\<lparr>b_posterImage := Some url\<rparr>) t)
       \<and> trace (snd (putTournament e (Id i) True b w)) =
           trace w @ [Uploaded pid, Saved i]
           @ (case extractPublicId (posterImage t) of None \<Rightarrow> [] | Some old \<Rightarrow> [Destroy old])
       \<and> map_of (tournaments (snd (putTournament e (Id i) True b w))) i =
           Some (assign ((sanitize b)\<lparr>b_posterImage := Some url\<rparr>) t)"
  using assms
  by (auto simp add: putTournament_def findById_def uploadToCloudinary_def assignAndSave_def
      save_def deleteFromCloudinary_def update_conv' split: option.splits)

lemma putTournament_no_file:
  assumes "tournamentValidation b = []"
    and "map_of (tournaments w) i = Some t" and "\<not> findFails e"
  shows "cloud (snd (putTournament e (Id i) False b w)) = cloud w
       \<and> (trace (snd (putTournament e (Id i) False b w)) = trace w
          \<or> trace (snd (putTournament e (Id i) False b w)) = trace w @ [Saved i])"
  using assms
  by (auto simp add: putTournament_def findById_def assignAndSave_def
      save_def putCatch_def split: option.splits)

text \<open>
  C7 (the code departs from the claim): an update request with a new poster whose upload
  succeeds and whose save the database rejects. The old image and the stored document are
  left alone, as claimed; but the handler's \<open>catch\<close> block throws a \<open>ReferenceError\<close>
  at its first statement, so the newly uploaded image is not deleted (no \<open>destroy\<close> is
  called and Cloudinary holds both images) and no response is sent: the original failure
  is not surfaced.
\<close>

theorem putTournament_failed_save_uncaught:
  "tournamentValidation entryForm = []
   \<and> saveFails writesFail 1
   \<and> putTournament writesFail (Id 1) True entryForm club =
       (Uncaught ReferenceError,
        club\<lparr>cloud := {''aspire-chess-academy/posters/poster-2'',
                       ''aspire-chess-academy/posters/poster-1''},
             trace := [Uploaded ''aspire-chess-academy/posters/poster-2'']\<rparr>)
   \<and> ''aspire-chess-academy/posters/poster-2''
       \<in> cloud (snd (putTournament writesFail (Id 1) True entryForm club))
   \<and> tournaments (snd (putTournament writesFail (Id 1) True entryForm club))
       = tournaments club"
  by (simp add: eval_defs)


section \<open>The admin listing\<close>

lemma totalPages_bounds:
  assumes "0 < lmt"
  shows "\<exists>tp. totalPages cnt lmt = Some tp \<and> (tp - 1) * lmt < cnt \<and> cnt \<le> tp * lmt"
proof -
  let ?tp = "\<lceil>real_of_int cnt / real_of_int lmt\<rceil>"
  from assms have pos: "0 < real_of_int lmt" by simp
  have "real_of_int cnt \<le> of_int ?tp * real_of_int lmt"
    by (rule ceiling_divide_upper [OF pos])
  then have up: "cnt \<le> ?tp * lmt"
    by (metis of_int_le_iff of_int_mult)
  have "(of_int ?tp - 1) * real_of_int lmt < real_of_int cnt"
    by (rule ceiling_divide_lower [OF pos])
  then have "real_of_int ((?tp - 1) * lmt) < real_of_int cnt"
    by simp
  then have lo: "(?tp - 1) * lmt < cnt"
    by (simp only: of_int_less_iff)
  from assms up lo show ?thesis
    by (simp add: totalPages_def)
qed

lemma matches_buildQuery:
  "matches e (buildQuery search st cat) t =
    ((if search = [] then True
      else (case regex e search ''i'' of
              None \<Rightarrow> False
            | Some m \<Rightarrow> m (name t) \<or> m (location t) \<or> m (category t)))
     \<and> (if st = ''all'' then True
        else if st = ''active'' then isActive t
        else if st = ''inactive'' then \<not> isActive t
        else statusName (status t) = st)
     \<and> (if cat = ''all'' then True else category t = cat))"
  by (auto simp add: matches_def buildQuery_def clauseHolds_def pathValue_def
      split: option.splits)

text \<open>
  C9: for every admin list request, the filter built sets \<open>isActive\<close> to true for the
  status \<open>active\<close> and to false for \<open>inactive\<close>, sets \<open>status\<close> to the given value for
  any other status but \<open>all\<close>, and, for a non-empty search, joins by \<open>$or\<close> the
  case-insensitive (\<open>$options: 'i'\<close>) regular-expression tests of \<open>name\<close>, \<open>location\<close>
  and \<open>category\<close>, so that a document is selected exactly when one of the three matches
  and the status and category tests hold. For a page \<open>pg \<ge> 1\<close> and a limit
  \<open>lmt > 0\<close> the reply carries the items \<open>(pg - 1) * lmt\<close> up to \<open>pg * lmt\<close> of the
  result, the count of all selected documents, and
  \<open>totalPages = \<lceil>count / lmt\<rceil>\<close>, the least number of pages that holds them all.
\<close>

theorem getAdmin_filter_and_pages:
  assumes "\<not> findFails e" and "compiles e (buildQuery search st cat)"
    and "1 \<le> pg" and "0 < lmt"
  shows "q_isActive (buildQuery search st cat) =
           (if st = ''active'' then Some True else if st = ''inactive'' then Some False else None)
       \<and> q_status (buildQuery search st cat) =
           (if st = ''all'' \<or> st = ''active'' \<or> st = ''inactive'' then None else Some st)
       \<and> q_or (buildQuery search st cat) =
           (if search = [] then None
            else Some [(NamePath, search, ''i''), (LocationPath, search, ''i''),
                       (CategoryPath, search, ''i'')])
       \<and> matches e (buildQuery search st cat) t =
          ((if search = [] then True
            else (case regex e search ''i'' of
                    None \<Rightarrow> False
                  | Some m \<Rightarrow> m (name t) \<or> m (location t) \<or> m (category t)))
           \<and> (if st = ''all'' then True
              else if st = ''active'' then isActive t
              else if st = ''inactive'' then \<not> isActive t
              else statusName (status t) = st)
           \<and> (if cat = ''all'' then True else category t = cat))
       \<and> (\<exists>tp. getAdmin e
                   \<lparr>r_page = Some pg, r_limit = Some lmt, r_search = Some search,
                     r_status = Some st, r_category = Some cat\<rparr> w =
                 (Page (take (nat lmt) (drop (nat ((pg - 1) * lmt))
                          (findSorted e (buildQuery search st cat) w)))
                    (int (length (filter (\<lambda>(i, t). matches e (buildQuery search st cat) t)
                                    (tournaments w))))
                    (Some tp) pg, w)
               \<and> tp = \<lceil>real_of_int (int (length (filter
                            (\<lambda>(i, t). matches e (buildQuery search st cat) t)
                            (tournaments w)))) / real_of_int lmt\<rceil>
               \<and> (tp - 1) * lmt
                    < int (length (filter (\<lambda>(i, t). matches e (buildQuery search st cat) t)
                                    (tournaments w)))
               \<and> int (length (filter (\<lambda>(i, t). matches e (buildQuery search st cat) t)
                                (tournaments w))) \<le> tp * lmt)"
proof -
  let ?q = "buildQuery search st cat"
  let ?n = "int (length (filter (\<lambda>(i, t). matches e ?q t) (tournaments w)))"
  have len: "int (length (findSorted e ?q w)) = ?n"
    by (simp add: findSorted_def)
  from assms(3,4) have skip: "\<not> (pg - 1) * lmt < 0"
    by (simp add: mult_less_0_iff)
  from totalPages_bounds [OF assms(4), of ?n] obtain tp where
    tp: "totalPages ?n lmt = Some tp" and lo: "(tp - 1) * lmt < ?n" and up: "?n \<le> tp * lmt"
    by blast
  from tp assms(4) have ceil: "tp = \<lceil>real_of_int ?n / real_of_int lmt\<rceil>"
    by (simp add: totalPages_def)
  from assms(4) have a: "nat \<bar>lmt\<bar> = nat lmt" "lmt \<noteq> 0"
    by simp_all
  have run: "getAdmin e
                   \<lparr>r_page = Some pg, r_limit = Some lmt, r_search = Some search,
                     r_status = Some st, r_category = Some cat\<rparr> w =
                 (Page (take (nat lmt) (drop (nat ((pg - 1) * lmt)) (findSorted e ?q w)))
                    ?n (Some tp) pg, w)"
    using assms(1,2) skip tp a by (simp add: getAdmin_def len Let_def)
  have filt: "q_isActive ?q =
           (if st = ''active'' then Some True else if st = ''inactive'' then Some False else None)"
    "q_status ?q =
           (if st = ''all'' \<or> st = ''active'' \<or> st = ''inactive'' then None else Some st)"
    "q_or ?q =
           (if search = [] then None
            else Some [(NamePath, search, ''i''), (LocationPath, search, ''i''),
                       (CategoryPath, search, ''i'')])"
    by (simp_all add: buildQuery_def)
  from filt matches_buildQuery [of e search st cat t] run ceil lo up show ?thesis
    by blast
qed

theorem getAdmin_filter_and_pages_witness:
  "\<not> findFails atNoon
   \<and> compiles atNoon (buildQuery ''OPEN'' ''active'' ''all'')
   \<and> matches atNoon (buildQuery ''OPEN'' ''active'' ''all'')
       (autumnOpen\<lparr>posterImage := Some posterUrl\<rparr>)
   \<and> getAdmin atNoon
        \<lparr>r_page = Some 1, r_limit = Some 10, r_search = Some ''OPEN'',
          r_status = Some ''active'', r_category = Some ''all''\<rparr> club
      = (Page [autumnOpen\<lparr>posterImage := Some posterUrl\<rparr>] 1 (Some 1) 1, club)"
proof -
  have f: "\<not> findFails atNoon"
    by (simp add: atNoon_def)
  have r: "regex atNoon ''OPEN'' ''i'' = Some (containsCI ''OPEN'')"
    by (simp add: atNoon_def literalRegex_def isLetter_def)
  have c: "compiles atNoon (buildQuery ''OPEN'' ''active'' ''all'')"
    by (simp add: compiles_def buildQuery_def r)
  have found: "findSorted atNoon (buildQuery ''OPEN'' ''active'' ''all'') club
      = [autumnOpen\<lparr>posterImage := Some posterUrl\<rparr>]"
    by (simp add: findSorted_def matches_def buildQuery_def clauseHolds_def pathValue_def r
        toLower_def club_def autumnOpen_def)
  have n: "filter (\<lambda>(i, t). matches atNoon (buildQuery ''OPEN'' ''active'' ''all'') t)
             (tournaments club) = tournaments club"
    by (simp add: matches_def buildQuery_def clauseHolds_def pathValue_def r
        toLower_def club_def autumnOpen_def)
  have l: "length (tournaments club) = 1"
    by (simp add: club_def)
  have one: "\<lceil>(1::real) / 10\<rceil> = 1"
    by (simp add: ceiling_eq_iff)
  from getAdmin_filter_and_pages
    [OF f c, of 1 10 "autumnOpen\<lparr>posterImage := Some posterUrl\<rparr>" club]
  show ?thesis
    using f c by (simp add: found n l one r toLower_def autumnOpen_def)
qed

end
